theory Spec2Isabelle
  imports Complex_Main
begin

section \<open>Stream preview utilities: the update and retry flow of index.tsx\<close>

text \<open>
  The plugin is single-threaded and event-driven. Its module-level variables
  (\<open>retryUpdate\<close>, \<open>streamId\<close>) and the parts of the host it talks to (the timer table
  behind \<open>setTimeout\<close>/\<open>clearTimeout\<close>, the REST requests still in flight, the persisted
  setting, the sequence of calls made into the host) form one explicit state. Every
  \<open>async\<close> function is cut at its \<open>await\<close>: the part before it is one function, the part
  after it is a second one that receives what the awaited promise settled with.
\<close>

subsection \<open>Data\<close>

type_synonym handle = nat

text \<open>The closure handed to \<open>setTimeout\<close> in \<open>postPreview\<close>: the delay it was scheduled
  with and the two variables it captures.\<close>

record timer =
  delay :: rat
  t_streamKey :: string
  t_imageData :: string

text \<open>The error object \<open>e\<close> a rejected \<open>RestAPI.post\<close> carries: \<open>e.status\<close> (absent on a
  failure without an HTTP answer) and \<open>e.body\<close> (absent on an answer without a body),
  whose \<open>retry_after\<close> is a number of the server's, not always a whole one. The code
  hands the number to \<open>setTimeout\<close> as it is.\<close>

record response_body =
  retry_after :: rat

record rest_error =
  status :: "int option"
  body :: "response_body option"

datatype error = Rest rest_error | InvalidStateError | TypeError

type_synonym response = "rest_error + unit"

text \<open>Who holds the promise of a \<open>postPreview\<close> call: \<open>updatePreview\<close> calls it without
  \<open>await\<close> (line 105), the timer callback awaits it (line 138).\<close>

datatype awaiter = Detached | RetryCallback

record request =
  r_streamKey :: string
  r_imageData :: string
  r_awaiter :: awaiter

text \<open>Calls into the host, in the order they are made.\<close>

datatype effect =
    Canvas nat nat
  | Dispatch string string
  | Post string string
  | UpdateSetting bool
  | SetTimeout handle rat
  | ClearTimeout handle
  | Unhandled error

record state =
  retryUpdate :: "handle option"
  streamId :: "int option"
  disableStreamPreviews :: bool
  timers :: "(handle \<times> timer) list"
  nextHandle :: handle
  requests :: "request list"
  trace :: "effect list"

record image =
  width :: nat
  height :: nat

datatype chosen_file = File (decode: "image option")

record rtc_event =
  e_context :: string
  e_userId :: string
  e_streamId :: "int option"

definition maxWidth :: nat where
  "maxWidth = 512"

definition maxHeight :: nat where
  "maxHeight = 512"

subsection \<open>The host's timers\<close>

text \<open>\<open>setTimeout\<close> returns a fresh handle; handles are positive integers, so the test
  \<open>!retryUpdate\<close> of the source is the test for \<open>undefined\<close>.\<close>

definition setTimeout :: "timer \<Rightarrow> state \<Rightarrow> handle \<times> state" where
  "setTimeout t s =
     (let h = nextHandle s
      in (h, s\<lparr>timers := timers s @ [(h, t)],
               nextHandle := Suc h,
               trace := trace s @ [SetTimeout h (delay t)]\<rparr>))"

definition unschedule :: "handle \<Rightarrow> (handle \<times> timer) list \<Rightarrow> (handle \<times> timer) list" where
  "unschedule h ts = filter (\<lambda>p. fst p \<noteq> h) ts"

definition clearTimeout :: "handle \<Rightarrow> state \<Rightarrow> state" where
  "clearTimeout h s =
     s\<lparr>timers := unschedule h (timers s), trace := trace s @ [ClearTimeout h]\<rparr>"

subsection \<open>resetRetry (lines 144-149)\<close>

definition resetRetry :: "state \<Rightarrow> state" where
  "resetRetry s =
     (case retryUpdate s of
        None \<Rightarrow> s
      | Some h \<Rightarrow> (clearTimeout h s)\<lparr>retryUpdate := None\<rparr>)"

subsection \<open>postPreview (lines 121-142)\<close>

text \<open>Up to the \<open>await\<close>: the request is issued and stays in flight.\<close>

definition postPreview :: "string \<Rightarrow> string \<Rightarrow> awaiter \<Rightarrow> state \<Rightarrow> state" where
  "postPreview streamKey imageData a s =
     s\<lparr>requests := requests s @
          [\<lparr>r_streamKey = streamKey, r_imageData = imageData, r_awaiter = a\<rparr>],
       trace := trace s @ [Post streamKey imageData]\<rparr>"

text \<open>After the \<open>await\<close>: the request \<open>r\<close> settled with \<open>resp\<close>. The result is what the
  promise of \<open>postPreview\<close> settles with (\<open>Inl\<close>: the rethrown error, or the
  \<open>TypeError\<close> of reading \<open>retry_after\<close> from a body that is not there).\<close>

definition postPreview_resume :: "request \<Rightarrow> response \<Rightarrow> state \<Rightarrow> (error + unit) \<times> state" where
  "postPreview_resume r resp s =
     (case resp of
        Inr _ \<Rightarrow> (Inr (), s)
      | Inl e \<Rightarrow>
          if status e \<noteq> Some 429 then (Inl (Rest e), s)
          else
            (case body e of
               None \<Rightarrow> (Inl TypeError, s)
             | Some b \<Rightarrow>
                 (let retryAfter = retry_after b;
                      s1 = resetRetry s;
                      (h, s2) = setTimeout \<lparr>delay = retryAfter,
                                             t_streamKey = r_streamKey r,
                                             t_imageData = r_imageData r\<rparr> s1
                  in (Inr (), s2\<lparr>retryUpdate := Some h\<rparr>))))"

text \<open>The timer callback (lines 137-140), before and after its \<open>await\<close>.\<close>

definition retry_callback :: "timer \<Rightarrow> state \<Rightarrow> state" where
  "retry_callback t s = postPreview (t_streamKey t) (t_imageData t) RetryCallback s"

definition retry_callback_resume :: "error + unit \<Rightarrow> state \<Rightarrow> (error + unit) \<times> state" where
  "retry_callback_resume res s =
     (case res of
        Inl e \<Rightarrow> (Inl e, s)
      | Inr _ \<Rightarrow> (Inr (), s\<lparr>retryUpdate := None\<rparr>))"

subsection \<open>The flux handler RTC_CONNECTION_VIDEO (lines 49-59)\<close>

definition truthy :: "int option \<Rightarrow> bool" where
  "truthy v = (case v of None \<Rightarrow> False | Some n \<Rightarrow> n \<noteq> 0)"

definition RTC_CONNECTION_VIDEO :: "string \<Rightarrow> rtc_event \<Rightarrow> state \<Rightarrow> state" where
  "RTC_CONNECTION_VIDEO myId e s =
     (if e_context e \<noteq> ''stream'' then s
      else if e_userId e \<noteq> myId then s
      else
        (let s1 = s\<lparr>streamId := e_streamId e\<rparr>
         in if truthy (e_streamId e) then s1 else resetRetry s1))"

subsection \<open>updatePreview (lines 87-111)\<close>

text \<open>The host's \<open>createImageBitmap(data, {resizeWidth, resizeHeight})\<close>. A side that
  the options give gets the given length. A side that they leave out gets the length
  the host derives from the source's proportions; how the host computes and rounds it is
  not part of the plugin, so the host's rule is a parameter: \<open>derive t a b\<close> is the length
  given to a side of source length \<open>a\<close> when the other side, of source length \<open>b\<close>, is
  resized to \<open>t\<close>. A source without pixels is rejected.\<close>

type_synonym scaler = "nat \<Rightarrow> nat \<Rightarrow> nat \<Rightarrow> nat"

definition createImageBitmap ::
  "scaler \<Rightarrow> image \<Rightarrow> nat option \<Rightarrow> nat option \<Rightarrow> image option" where
  "createImageBitmap derive src resizeWidth resizeHeight =
     (if width src = 0 then None
      else if height src = 0 then None
      else
        (case resizeWidth of
           Some w \<Rightarrow>
             (case resizeHeight of
                Some h \<Rightarrow> Some \<lparr>width = w, height = h\<rparr>
              | None \<Rightarrow> Some \<lparr>width = w, height = derive w (height src) (width src)\<rparr>)
         | None \<Rightarrow>
             (case resizeHeight of
                Some h \<Rightarrow> Some \<lparr>width = derive h (width src) (height src), height = h\<rparr>
              | None \<Rightarrow> Some src)))"

text \<open>One rule a host may follow, used where a concrete host is needed: the
  proportional length, rounded up to the next integer. A host that computes the
  proportion in floating point can differ from it by a pixel; at the concrete images
  below the division is exact (1080 * 512 / 1920 = 288 and 1200 * 512 / 600 = 1024).\<close>

definition ceil_div :: "nat \<Rightarrow> nat \<Rightarrow> nat" where
  "ceil_div a b = (a + b - 1) div b"

definition rounding_up :: scaler where
  "rounding_up t a b = ceil_div (a * t) b"

text \<open>Lines 88-94: the resize step.\<close>

definition resize :: "scaler \<Rightarrow> image \<Rightarrow> image option" where
  "resize derive data =
     (let isWidthLarge = width data > maxWidth
      in createImageBitmap derive data
           (if isWidthLarge then Some maxWidth else None)
           (if isWidthLarge then None else Some maxHeight))"

definition setLocalPreview :: "string \<Rightarrow> string \<Rightarrow> state \<Rightarrow> state" where
  "setLocalPreview streamKey imageData s =
     s\<lparr>trace := trace s @ [Dispatch streamKey imageData]\<rparr>"

definition updateSetting :: "bool \<Rightarrow> state \<Rightarrow> state" where
  "updateSetting b s =
     s\<lparr>disableStreamPreviews := b, trace := trace s @ [UpdateSetting b]\<rparr>"

text \<open>\<open>url\<close> is the string \<open>canvas.toDataURL("image/jpeg")\<close> returns in this call. The
  function starts at the point where the awaited bitmap is there; from there on it runs
  without a further \<open>await\<close>.\<close>

definition updatePreview ::
  "scaler \<Rightarrow> string \<Rightarrow> image \<Rightarrow> string \<Rightarrow> state \<Rightarrow> error + state" where
  "updatePreview derive streamKey data url s =
     (case resize derive data of
        None \<Rightarrow> Inl InvalidStateError
      | Some bitmap \<Rightarrow>
          (let s1 = s\<lparr>trace := trace s @ [Canvas (width bitmap) (height bitmap)]\<rparr>;
               imageData = url;
               s2 = setLocalPreview streamKey imageData s1;
               s3 = postPreview streamKey imageData Detached s2;
               previewDisabled = disableStreamPreviews s3
           in if previewDisabled then Inr s3 else Inr (updateSetting True s3)))"

definition unhandled :: "error + state \<Rightarrow> state \<Rightarrow> state" where
  "unhandled res s = (case res of Inl e \<Rightarrow> s\<lparr>trace := trace s @ [Unhandled e]\<rparr> | Inr s' \<Rightarrow> s')"

subsection \<open>uploadPreview (lines 63-73)\<close>

text \<open>\<open>chosen\<close> is what \<open>chooseFile\<close> resolved with, \<open>active\<close> what the streaming store
  returns as the current user's stream. \<open>streamToStreamKey\<close> lives in a module that is
  not part of index.tsx and is a parameter. The update that is started at the end is
  not awaited; it is taken to run at once, and an error of it stays uncaught.\<close>

definition uploadPreview ::
  "scaler \<Rightarrow> ('stream option \<Rightarrow> error + string) \<Rightarrow> 'stream option \<Rightarrow>
   'stream option \<Rightarrow> chosen_file option \<Rightarrow> string \<Rightarrow> state \<Rightarrow> error + state" where
  "uploadPreview derive streamToStreamKey stream active chosen url s =
     (case chosen of
        None \<Rightarrow> Inr s
      | Some f \<Rightarrow>
          (let stream' = (case stream of None \<Rightarrow> active | Some x \<Rightarrow> Some x)
           in case streamToStreamKey stream' of
                Inl e \<Rightarrow> Inl e
              | Inr streamKey \<Rightarrow>
                  (case decode f of
                     None \<Rightarrow> Inl InvalidStateError
                   | Some img \<Rightarrow>
                       Inr (unhandled (updatePreview derive streamKey img url s) s))))"

subsection \<open>The event loop\<close>

datatype event =
    Update string image string
  | Response nat response
  | Timeout handle
  | RtcConnectionVideo rtc_event

text \<open>The host fires a timer that is still in its table: the entry leaves the table and
  the callback runs up to its \<open>await\<close>.\<close>

definition fire :: "handle \<Rightarrow> state \<Rightarrow> state" where
  "fire h s =
     (case map_of (timers s) h of
        None \<Rightarrow> s
      | Some t \<Rightarrow> retry_callback t (s\<lparr>timers := unschedule h (timers s)\<rparr>))"

text \<open>The \<open>i\<close>-th request in flight settles: \<open>postPreview\<close> resumes, then whoever awaits
  it. A rejection that nobody catches is recorded.\<close>

definition settle :: "nat \<Rightarrow> response \<Rightarrow> state \<Rightarrow> state" where
  "settle i resp s =
     (if i < length (requests s) then
        (let r = requests s ! i;
             s0 = s\<lparr>requests := take i (requests s) @ drop (Suc i) (requests s)\<rparr>;
             (res, s1) = postPreview_resume r resp s0;
             (res', s2) = (case r_awaiter r of
                             Detached \<Rightarrow> (res, s1)
                           | RetryCallback \<Rightarrow> retry_callback_resume res s1)
         in case res' of
              Inl e \<Rightarrow> s2\<lparr>trace := trace s2 @ [Unhandled e]\<rparr>
            | Inr _ \<Rightarrow> s2)
      else s)"

definition step :: "scaler \<Rightarrow> string \<Rightarrow> event \<Rightarrow> state \<Rightarrow> state" where
  "step derive myId ev s =
     (case ev of
        Update streamKey data url \<Rightarrow> unhandled (updatePreview derive streamKey data url s) s
      | Response i resp \<Rightarrow> settle i resp s
      | Timeout h \<Rightarrow> fire h s
      | RtcConnectionVideo e \<Rightarrow> RTC_CONNECTION_VIDEO myId e s)"

primrec run :: "scaler \<Rightarrow> string \<Rightarrow> event list \<Rightarrow> state \<Rightarrow> state" where
  "run derive myId [] s = s"
| "run derive myId (ev # evs) s = run derive myId evs (step derive myId ev s)"

definition init :: state where
  "init = \<lparr>retryUpdate = None, streamId = None, disableStreamPreviews = False,
           timers = [], nextHandle = 1, requests = [], trace = []\<rparr>"

subsection \<open>A concrete session\<close>

text \<open>The example of the specification: a submit for the key \<open>123:456\<close> that the
  server answers with 429 and \<open>retry_after\<close> 5, for a 1920 x 1080 frame.\<close>

definition me :: string where
  "me = ''1001''"

definition key :: string where
  "key = ''123:456''"

definition frame :: image where
  "frame = \<lparr>width = 1920, height = 1080\<rparr>"

definition too_many :: rest_error where
  "too_many = \<lparr>status = Some 429, body = Some \<lparr>retry_after = 5\<rparr>\<rparr>"

definition server_error :: rest_error where
  "server_error = \<lparr>status = Some 500, body = None\<rparr>"

text \<open>An update is rejected with 429.\<close>

definition rejected_once :: "event list" where
  "rejected_once = [Update key frame ''A'', Response 0 (Inl too_many)]"

text \<open>An update is rejected with 429, the retry fires and is rejected with 429 again.\<close>

definition retry_rejected_again :: "event list" where
  "retry_rejected_again =
     [Update key frame ''A'', Response 0 (Inl too_many), Timeout 1, Response 0 (Inl too_many)]"

text \<open>An update is rejected with 429, the retry fires and fails with 500.\<close>

definition retry_failed :: "event list" where
  "retry_failed =
     [Update key frame ''A'', Response 0 (Inl too_many), Timeout 1, Response 0 (Inl server_error)]"

text \<open>After that, a second update is rejected with 429 as well.\<close>

definition second_update_rejected :: "event list" where
  "second_update_rejected =
     retry_rejected_again @ [Update key frame ''B'', Response 0 (Inl too_many)]"

text \<open>The connection event of the user's own stream that reports the stream id 0.\<close>

definition session_ended :: rtc_event where
  "session_ended = \<lparr>e_context = ''stream'', e_userId = me, e_streamId = Some 0\<rparr>"

text \<open>A portrait image that is wider than 512.\<close>

definition tall :: image where
  "tall = \<lparr>width = 600, height = 1200\<rparr>"

section \<open>Properties\<close>

lemmas flow_defs =
  step_def settle_def unhandled_def updatePreview_def resize_def createImageBitmap_def
  maxWidth_def maxHeight_def ceil_div_def setLocalPreview_def postPreview_def
  updateSetting_def postPreview_resume_def resetRetry_def setTimeout_def clearTimeout_def
  unschedule_def fire_def retry_callback_def retry_callback_resume_def
  RTC_CONNECTION_VIDEO_def truthy_def

lemmas session_defs =
  init_def me_def key_def frame_def too_many_def server_error_def rounding_up_def

subsection \<open>The states of the concrete session\<close>

text \<open>They are the same for every rule of the host but for the height of the canvas.\<close>

lemma pending_state:
  "run derive me rejected_once init =
     \<lparr>retryUpdate = Some 1, streamId = None, disableStreamPreviews = True,
      timers = [(1, \<lparr>delay = 5, t_streamKey = key, t_imageData = ''A''\<rparr>)],
      nextHandle = 2, requests = [],
      trace = [Canvas 512 (derive 512 1080 1920), Dispatch key ''A'', Post key ''A'',
               UpdateSetting True,
               SetTimeout 1 5]\<rparr>"
  by (simp add: rejected_once_def flow_defs session_defs Let_def)

lemma retry_rejected_again_state:
  "run derive me retry_rejected_again init =
     \<lparr>retryUpdate = None, streamId = None, disableStreamPreviews = True,
      timers = [(2, \<lparr>delay = 5, t_streamKey = key, t_imageData = ''A''\<rparr>)],
      nextHandle = 3, requests = [],
      trace = [Canvas 512 (derive 512 1080 1920), Dispatch key ''A'', Post key ''A'',
               UpdateSetting True,
               SetTimeout 1 5, Post key ''A'', ClearTimeout 1, SetTimeout 2 5]\<rparr>"
  by (simp add: retry_rejected_again_def flow_defs session_defs Let_def)

lemma retry_failed_state:
  "run derive me retry_failed init =
     \<lparr>retryUpdate = Some 1, streamId = None, disableStreamPreviews = True,
      timers = [], nextHandle = 2, requests = [],
      trace = [Canvas 512 (derive 512 1080 1920), Dispatch key ''A'', Post key ''A'',
               UpdateSetting True,
               SetTimeout 1 5, Post key ''A'', Unhandled (Rest server_error)]\<rparr>"
  by (simp add: retry_failed_def flow_defs session_defs Let_def)

lemma run_append: "run derive myId (evs @ evs') s = run derive myId evs' (run derive myId evs s)"
  by (induction evs arbitrary: s) simp_all

subsection \<open>resetRetry\<close>

lemma resetRetry_slot: "retryUpdate (resetRetry s) = None"
  by (simp add: resetRetry_def clearTimeout_def split: option.splits)

lemma resetRetry_empty: "retryUpdate s = None \<Longrightarrow> resetRetry s = s"
  by (simp add: resetRetry_def)

text \<open>
  C8. Cancelling the retry timer is idempotent: with no timer in the slot
  \<open>resetRetry\<close> changes nothing at all, calling it twice is calling it once, and after
  any call the slot is empty.
\<close>

theorem resetRetry_idempotent:
  "(retryUpdate s = None \<longrightarrow> resetRetry s = s) \<and>
   resetRetry (resetRetry s) = resetRetry s \<and>
   retryUpdate (resetRetry s) = None"
  using resetRetry_empty [of s] resetRetry_empty [of "resetRetry s"] resetRetry_slot [of s]
  by simp

theorem resetRetry_idempotent_witness:
  "retryUpdate init = None \<and> resetRetry init = init \<and>
   retryUpdate (run rounding_up me rejected_once init) = Some 1 \<and>
   resetRetry (resetRetry (run rounding_up me rejected_once init)) =
     resetRetry (run rounding_up me rejected_once init) \<and>
   timers (resetRetry (run rounding_up me rejected_once init)) = []"
proof -
  have slot: "retryUpdate init = None"
    by (simp add: init_def)
  have "resetRetry init = init"
    using resetRetry_idempotent [of init] slot by simp
  moreover have "resetRetry (resetRetry (run rounding_up me rejected_once init)) =
     resetRetry (run rounding_up me rejected_once init)"
    using resetRetry_idempotent [of "run rounding_up me rejected_once init"]
    by simp
  moreover have "timers (resetRetry (run rounding_up me rejected_once init)) = []"
    by (simp add: pending_state resetRetry_def clearTimeout_def unschedule_def)
  ultimately show ?thesis
    using slot by (simp add: pending_state)
qed

subsection \<open>uploadPreview\<close>

text \<open>
  C9. When the file chooser resolves with nothing, \<open>uploadPreview\<close> returns normally and
  the state is the one it started from: nothing is drawn, dispatched or posted, and the
  setting is not written.
\<close>

theorem uploadPreview_cancelled:
  "uploadPreview derive streamToStreamKey stream active None url s = Inr s"
  by (simp add: uploadPreview_def)

subsection \<open>postPreview: a failure other than 429\<close>

lemma settle_other_status:
  assumes "i < length (requests s)" and "status e \<noteq> Some 429"
  shows "settle i (Inl e) s =
           s\<lparr>requests := take i (requests s) @ drop (Suc i) (requests s),
             trace := trace s @ [Unhandled (Rest e)]\<rparr>"
proof (cases "r_awaiter (requests s ! i)")
  case Detached
  with assms show ?thesis
    by (simp add: settle_def postPreview_resume_def Let_def)
next
  case RetryCallback
  with assms show ?thesis
    by (simp add: settle_def postPreview_resume_def retry_callback_resume_def Let_def)
qed

text \<open>
  C3. A submit that fails with a status other than 429 settles with that error and
  leaves the state as it was: no timer is scheduled and the slot is not written. In the
  event loop the error reaches whoever holds the promise; neither \<open>updatePreview\<close> nor the
  timer callback catches it.
\<close>

theorem postPreview_other_status_propagates:
  "status e \<noteq> Some 429 \<Longrightarrow>
     postPreview_resume r (Inl e) s = (Inl (Rest e), s) \<and>
     (i < length (requests s) \<longrightarrow>
        timers (settle i (Inl e) s) = timers s \<and>
        nextHandle (settle i (Inl e) s) = nextHandle s \<and>
        retryUpdate (settle i (Inl e) s) = retryUpdate s \<and>
        trace (settle i (Inl e) s) = trace s @ [Unhandled (Rest e)])"
  by (simp add: settle_other_status) (simp add: postPreview_resume_def)

theorem postPreview_other_status_propagates_witness:
  "status server_error \<noteq> Some 429 \<and>
   postPreview_resume \<lparr>r_streamKey = key, r_imageData = ''A'', r_awaiter = Detached\<rparr>
     (Inl server_error) init = (Inl (Rest server_error), init) \<and>
   0 < length (requests (postPreview key ''A'' Detached init)) \<and>
   timers (settle 0 (Inl server_error) (postPreview key ''A'' Detached init)) = [] \<and>
   retryUpdate (settle 0 (Inl server_error) (postPreview key ''A'' Detached init)) = None \<and>
   trace (settle 0 (Inl server_error) (postPreview key ''A'' Detached init)) =
     [Post key ''A'', Unhandled (Rest server_error)]"
proof -
  have st: "status server_error \<noteq> Some 429"
    by (simp add: server_error_def)
  have len: "0 < length (requests (postPreview key ''A'' Detached init))"
    by (simp add: postPreview_def)
  have a: "postPreview_resume \<lparr>r_streamKey = key, r_imageData = ''A'', r_awaiter = Detached\<rparr>
     (Inl server_error) init = (Inl (Rest server_error), init)"
    using postPreview_other_status_propagates [OF st] by simp
  have b: "timers (settle 0 (Inl server_error) (postPreview key ''A'' Detached init)) =
             timers (postPreview key ''A'' Detached init) \<and>
           retryUpdate (settle 0 (Inl server_error) (postPreview key ''A'' Detached init)) =
             retryUpdate (postPreview key ''A'' Detached init) \<and>
           trace (settle 0 (Inl server_error) (postPreview key ''A'' Detached init)) =
             trace (postPreview key ''A'' Detached init) @ [Unhandled (Rest server_error)]"
    using postPreview_other_status_propagates
      [OF st, where i = 0 and s = "postPreview key ''A'' Detached init"] len
    by simp
  from st len a b show ?thesis
    by (simp add: postPreview_def init_def)
qed

subsection \<open>The timer callback when its retry fails\<close>

lemma fire_pending:
  "map_of (timers s) h = Some t \<Longrightarrow>
     fire h s =
       s\<lparr>timers := unschedule h (timers s),
         requests := requests s @
           [\<lparr>r_streamKey = t_streamKey t, r_imageData = t_imageData t,
             r_awaiter = RetryCallback\<rparr>],
         trace := trace s @ [Post (t_streamKey t) (t_imageData t)]\<rparr>"
  by (simp add: fire_def retry_callback_def postPreview_def)

lemma unschedule_absent: "h \<notin> fst ` set (unschedule h ts)"
  by (auto simp: unschedule_def)

text \<open>
  C10. When the retry that a timer started fails with a status other than 429, the
  assignment after the \<open>await\<close> in the callback is not reached: the slot still holds the
  handle of the timer that has fired, which is no longer in the host's table. The
  concrete session \<open>retry_failed\<close> ends in such a state: nothing is pending, nothing is
  in flight, and the slot holds handle 1.
\<close>

theorem retry_failure_keeps_slot:
  "(retryUpdate s = Some h \<and> map_of (timers s) h = Some t \<and> status e \<noteq> Some 429 \<longrightarrow>
      retryUpdate (settle (length (requests s)) (Inl e) (fire h s)) = Some h \<and>
      h \<notin> fst ` set (timers (settle (length (requests s)) (Inl e) (fire h s)))) \<and>
   retryUpdate (run derive me retry_failed init) = Some 1 \<and>
   timers (run derive me retry_failed init) = [] \<and>
   requests (run derive me retry_failed init) = []"
proof -
  have "retryUpdate (settle (length (requests s)) (Inl e) (fire h s)) = Some h \<and>
        h \<notin> fst ` set (timers (settle (length (requests s)) (Inl e) (fire h s)))"
    if slot: "retryUpdate s = Some h" and pending: "map_of (timers s) h = Some t"
      and st: "status e \<noteq> Some 429"
  proof -
    have len: "length (requests s) < length (requests (fire h s))"
      by (simp add: fire_pending [OF pending])
    show ?thesis
      by (simp add: settle_other_status [OF len st])
         (simp add: fire_pending [OF pending] slot unschedule_absent)
  qed
  then show ?thesis
    by (simp add: retry_failed_state)
qed

theorem retry_failure_keeps_slot_witness:
  "retryUpdate (run rounding_up me rejected_once init) = Some 1 \<and>
   map_of (timers (run rounding_up me rejected_once init)) 1 =
     Some \<lparr>delay = 5, t_streamKey = key, t_imageData = ''A''\<rparr> \<and>
   status server_error \<noteq> Some 429 \<and>
   retryUpdate (settle (length (requests (run rounding_up me rejected_once init))) (Inl server_error)
     (fire 1 (run rounding_up me rejected_once init))) = Some 1 \<and>
   1 \<notin> fst ` set (timers (settle (length (requests (run rounding_up me rejected_once init)))
     (Inl server_error) (fire 1 (run rounding_up me rejected_once init))))"
proof -
  have pre: "retryUpdate (run rounding_up me rejected_once init) = Some 1 \<and>
     map_of (timers (run rounding_up me rejected_once init)) 1 =
       Some \<lparr>delay = 5, t_streamKey = key, t_imageData = ''A''\<rparr> \<and>
     status server_error \<noteq> Some 429"
    by (simp add: pending_state server_error_def)
  with retry_failure_keeps_slot
    [of "run rounding_up me rejected_once init" 1 "\<lparr>delay = 5, t_streamKey = key, t_imageData = ''A''\<rparr>"
        server_error]
  show ?thesis
    by blast
qed

subsection \<open>updatePreview: order of the calls and the setting\<close>

lemma updatePreview_result:
  "updatePreview derive streamKey data url s = Inr s' \<Longrightarrow>
     \<exists>b. resize derive data = Some b \<and>
       s' = s\<lparr>disableStreamPreviews := True,
               requests := requests s @
                 [\<lparr>r_streamKey = streamKey, r_imageData = url, r_awaiter = Detached\<rparr>],
               trace := trace s @
                 [Canvas (width b) (height b), Dispatch streamKey url, Post streamKey url] @
                 (if disableStreamPreviews s then [] else [UpdateSetting True])\<rparr>"
  by (cases "disableStreamPreviews s")
     (auto simp: updatePreview_def setLocalPreview_def postPreview_def updateSetting_def Let_def
           split: option.splits)

lemma resetRetry_trace: "\<exists>xs. trace (resetRetry s) = trace s @ xs"
  by (simp add: resetRetry_def clearTimeout_def split: option.splits)

lemma resetRetry_setting: "disableStreamPreviews (resetRetry s) = disableStreamPreviews s"
  by (simp add: resetRetry_def clearTimeout_def split: option.splits)

lemma postPreview_resume_trace: "\<exists>xs. trace (snd (postPreview_resume r resp s)) = trace s @ xs"
proof (cases resp)
  case (Inl e)
  obtain xs where "trace (resetRetry s) = trace s @ xs"
    using resetRetry_trace by blast
  with Inl show ?thesis
    by (simp add: postPreview_resume_def setTimeout_def Let_def split: option.splits)
next
  case (Inr u)
  then show ?thesis
    by (simp add: postPreview_resume_def)
qed

lemma postPreview_resume_setting:
  "disableStreamPreviews (snd (postPreview_resume r resp s)) = disableStreamPreviews s"
  by (cases resp)
     (simp_all add: postPreview_resume_def setTimeout_def Let_def resetRetry_setting
        split: option.splits)

lemma settle_trace: "\<exists>xs. trace (settle i resp s) = trace s @ xs"
proof (cases "i < length (requests s)")
  case True
  define s0 where "s0 = s\<lparr>requests := take i (requests s) @ drop (Suc i) (requests s)\<rparr>"
  obtain xs where xs: "trace (snd (postPreview_resume (requests s ! i) resp s0)) = trace s @ xs"
    using postPreview_resume_trace [of "requests s ! i" resp s0] by (auto simp: s0_def)
  show ?thesis
    using True xs
    by (cases "r_awaiter (requests s ! i)")
       (auto simp: settle_def retry_callback_resume_def Let_def s0_def
             split: prod.splits sum.splits)
next
  case False
  then show ?thesis
    by (simp add: settle_def)
qed

lemma settle_setting: "disableStreamPreviews (settle i resp s) = disableStreamPreviews s"
proof (cases "i < length (requests s)")
  case True
  define s0 where "s0 = s\<lparr>requests := take i (requests s) @ drop (Suc i) (requests s)\<rparr>"
  have "disableStreamPreviews (snd (postPreview_resume (requests s ! i) resp s0)) =
          disableStreamPreviews s"
    by (simp add: postPreview_resume_setting s0_def)
  then show ?thesis
    using True
    by (cases "r_awaiter (requests s ! i)")
       (auto simp: settle_def retry_callback_resume_def Let_def s0_def
             split: prod.splits sum.splits)
next
  case False
  then show ?thesis
    by (simp add: settle_def)
qed

lemma step_trace: "\<exists>xs. trace (step derive myId ev s) = trace s @ xs"
proof (cases ev)
  case (Update streamKey data url)
  show ?thesis
  proof (cases "updatePreview derive streamKey data url s")
    case (Inl e)
    with Update show ?thesis
      by (simp add: step_def unhandled_def)
  next
    case (Inr s')
    from updatePreview_result [OF Inr] Update Inr show ?thesis
      by (auto simp: step_def unhandled_def)
  qed
next
  case (Response i resp)
  then show ?thesis
    by (simp add: step_def settle_trace)
next
  case (Timeout h)
  then show ?thesis
    by (simp add: step_def fire_def retry_callback_def postPreview_def split: option.splits)
next
  case (RtcConnectionVideo e)
  have "\<exists>xs. trace (resetRetry (s\<lparr>streamId := e_streamId e\<rparr>)) = trace s @ xs"
    using resetRetry_trace [of "s\<lparr>streamId := e_streamId e\<rparr>"] by simp
  with RtcConnectionVideo show ?thesis
    by (simp add: step_def RTC_CONNECTION_VIDEO_def Let_def)
qed

lemma step_setting: "disableStreamPreviews s \<Longrightarrow> disableStreamPreviews (step derive myId ev s)"
proof (cases ev)
  case (Update streamKey data url)
  assume on: "disableStreamPreviews s"
  show ?thesis
  proof (cases "updatePreview derive streamKey data url s")
    case (Inl e)
    with Update on show ?thesis
      by (simp add: step_def unhandled_def)
  next
    case (Inr s')
    from updatePreview_result [OF Inr] Update Inr show ?thesis
      by (auto simp: step_def unhandled_def)
  qed
next
  case (Response i resp)
  assume "disableStreamPreviews s"
  with Response show ?thesis
    by (simp add: step_def settle_setting)
next
  case (Timeout h)
  assume "disableStreamPreviews s"
  with Timeout show ?thesis
    by (simp add: step_def fire_def retry_callback_def postPreview_def split: option.splits)
next
  case (RtcConnectionVideo e)
  assume "disableStreamPreviews s"
  with RtcConnectionVideo show ?thesis
    by (simp add: step_def RTC_CONNECTION_VIDEO_def Let_def resetRetry_setting)
qed

lemma run_trace: "\<exists>xs. trace (run derive myId evs s) = trace s @ xs"
proof (induction evs arbitrary: s)
  case Nil
  show ?case by simp
next
  case (Cons ev evs)
  obtain xs where "trace (step derive myId ev s) = trace s @ xs"
    using step_trace by blast
  moreover obtain ys where "trace (run derive myId evs (step derive myId ev s)) = trace (step derive myId ev s) @ ys"
    using Cons.IH by blast
  ultimately show ?case by simp
qed

lemma run_setting: "disableStreamPreviews s \<Longrightarrow> disableStreamPreviews (run derive myId evs s)"
  by (induction evs arbitrary: s) (simp_all add: step_setting)

text \<open>
  C6. In an update that gets past the resize, the local dispatch is made before the
  request is issued: the calls appended to the trace are the canvas, the dispatch, the
  post, in this order. When \<open>updatePreview\<close> returns, the request is still in flight, so
  its result comes with a later event; whatever happens later is appended behind the
  dispatch and never before it.
\<close>

theorem updatePreview_local_before_remote:
  "updatePreview derive streamKey data url s = Inr s' \<Longrightarrow>
     (\<exists>b. resize derive data = Some b \<and>
        trace s' = trace s @
          [Canvas (width b) (height b), Dispatch streamKey url, Post streamKey url] @
          (if disableStreamPreviews s then [] else [UpdateSetting True])) \<and>
     requests s' = requests s @
       [\<lparr>r_streamKey = streamKey, r_imageData = url, r_awaiter = Detached\<rparr>] \<and>
     take (length (trace s')) (trace (run derive myId evs s')) = trace s'"
proof -
  assume ok: "updatePreview derive streamKey data url s = Inr s'"
  obtain xs where "trace (run derive myId evs s') = trace s' @ xs"
    using run_trace by blast
  then have "take (length (trace s')) (trace (run derive myId evs s')) = trace s'"
    by simp
  with updatePreview_result [OF ok] show ?thesis
    by auto
qed

theorem updatePreview_local_before_remote_witness:
  "updatePreview rounding_up key frame ''A'' init = Inr (step rounding_up me (Update key frame ''A'') init) \<and>
   trace (step rounding_up me (Update key frame ''A'') init) =
     [Canvas 512 288, Dispatch key ''A'', Post key ''A'', UpdateSetting True] \<and>
   requests (step rounding_up me (Update key frame ''A'') init) =
     [\<lparr>r_streamKey = key, r_imageData = ''A'', r_awaiter = Detached\<rparr>] \<and>
   take (length (trace (step rounding_up me (Update key frame ''A'') init)))
     (trace (run rounding_up me [Response 0 (Inl too_many)] (step rounding_up me (Update key frame ''A'') init))) =
     [Canvas 512 288, Dispatch key ''A'', Post key ''A'', UpdateSetting True]"
proof -
  have ok: "updatePreview rounding_up key frame ''A'' init = Inr (step rounding_up me (Update key frame ''A'') init)"
    by (simp add: flow_defs session_defs Let_def)
  have tr: "trace (step rounding_up me (Update key frame ''A'') init) =
     [Canvas 512 288, Dispatch key ''A'', Post key ''A'', UpdateSetting True]"
    by (simp add: flow_defs session_defs Let_def)
  have rq: "requests (step rounding_up me (Update key frame ''A'') init) =
     [\<lparr>r_streamKey = key, r_imageData = ''A'', r_awaiter = Detached\<rparr>]"
    by (simp add: flow_defs session_defs Let_def)
  have "take (length (trace (step rounding_up me (Update key frame ''A'') init)))
          (trace (run rounding_up me [Response 0 (Inl too_many)] (step rounding_up me (Update key frame ''A'') init))) =
        trace (step rounding_up me (Update key frame ''A'') init)"
    using updatePreview_local_before_remote
      [OF ok, where myId = me and evs = "[Response 0 (Inl too_many)]"]
    by blast
  with ok tr rq show ?thesis
    by simp
qed

text \<open>
  C7. An update that gets past the resize reads the setting after it has issued the
  request and leaves it true: when it was true already nothing is written, when it was
  not it is set to true. No event of the update flow (an update, a settled request, a
  timer, a connection event) sets it back to false.
\<close>

theorem updatePreview_latches_setting:
  "(updatePreview derive streamKey data url s = Inr s' \<longrightarrow>
      disableStreamPreviews s' \<and>
      (disableStreamPreviews s \<longrightarrow>
         UpdateSetting True \<notin> set (drop (length (trace s)) (trace s')) \<and>
         UpdateSetting False \<notin> set (drop (length (trace s)) (trace s'))) \<and>
      (\<not> disableStreamPreviews s \<longrightarrow>
         drop (length (trace s) + 3) (trace s') = [UpdateSetting True])) \<and>
   (disableStreamPreviews s \<longrightarrow> disableStreamPreviews (run derive myId evs s))"
proof -
  have "disableStreamPreviews s' \<and>
      (disableStreamPreviews s \<longrightarrow>
         UpdateSetting True \<notin> set (drop (length (trace s)) (trace s')) \<and>
         UpdateSetting False \<notin> set (drop (length (trace s)) (trace s'))) \<and>
      (\<not> disableStreamPreviews s \<longrightarrow>
         drop (length (trace s) + 3) (trace s') = [UpdateSetting True])"
    if ok: "updatePreview derive streamKey data url s = Inr s'"
    using updatePreview_result [OF ok] by auto
  then show ?thesis
    using run_setting by blast
qed

theorem updatePreview_latches_setting_witness:
  "updatePreview rounding_up key frame ''A'' init = Inr (step rounding_up me (Update key frame ''A'') init) \<and>
   \<not> disableStreamPreviews init \<and>
   disableStreamPreviews (step rounding_up me (Update key frame ''A'') init) \<and>
   drop 3 (trace (step rounding_up me (Update key frame ''A'') init)) = [UpdateSetting True] \<and>
   disableStreamPreviews (run rounding_up me retry_rejected_again (step rounding_up me (Update key frame ''A'') init))"
proof -
  have ok: "updatePreview rounding_up key frame ''A'' init = Inr (step rounding_up me (Update key frame ''A'') init)"
    by (simp add: flow_defs session_defs Let_def)
  have off: "\<not> disableStreamPreviews init" and len: "length (trace init) = 0"
    by (simp_all add: init_def)
  have latched: "disableStreamPreviews (step rounding_up me (Update key frame ''A'') init) \<and>
     drop (length (trace init) + 3) (trace (step rounding_up me (Update key frame ''A'') init)) =
       [UpdateSetting True]"
    using updatePreview_latches_setting
      [where derive = rounding_up and streamKey = key and data = frame and url = "''A''"
         and s = init and s' = "step rounding_up me (Update key frame ''A'') init"] ok off
    by blast
  have "disableStreamPreviews (run rounding_up me retry_rejected_again (step rounding_up me (Update key frame ''A'') init))"
    using updatePreview_latches_setting
      [where s = "step rounding_up me (Update key frame ''A'') init" and myId = me
         and evs = retry_rejected_again and derive = rounding_up] latched
    by blast
  with ok off latched len show ?thesis
    by simp
qed

subsection \<open>The resize step\<close>

lemma ceil_div_bounds:
  assumes "0 < b"
  shows "a \<le> ceil_div a b * b \<and> ceil_div a b * b < a + b"
proof -
  define q where "q = (a + b - 1) div b"
  have low: "q * b \<le> a + b - 1"
    unfolding q_def by (rule div_times_less_eq_dividend)
  have high: "a + b - 1 < b + q * b"
    unfolding q_def using assms by (rule dividend_less_div_times)
  have "a \<le> q * b \<and> q * b < a + b"
    using low high assms by linarith
  then show ?thesis
    by (simp only: ceil_div_def q_def)
qed






lemma rounding_up_ratio:
  "0 < b \<Longrightarrow> a * t \<le> rounding_up t a b * b \<and> rounding_up t a b * b < a * t + b"
  by (simp only: rounding_up_def ceil_div_bounds)



lemma resize_tall_any_host:
  "resize derive tall = Some \<lparr>width = 512, height = derive 512 1200 600\<rparr>"
  by (simp add: tall_def resize_def createImageBitmap_def maxWidth_def)




subsection \<open>postPreview: the status 429\<close>

lemma postPreview_resume_too_many:
  "status e = Some 429 \<Longrightarrow> body e = Some b \<Longrightarrow>
     postPreview_resume r (Inl e) s =
       (Inr (),
        (resetRetry s)
          \<lparr>timers := timers (resetRetry s) @
             [(nextHandle s,
               \<lparr>delay = retry_after b, t_streamKey = r_streamKey r,
                 t_imageData = r_imageData r\<rparr>)],
           nextHandle := Suc (nextHandle s),
           trace := trace (resetRetry s) @ [SetTimeout (nextHandle s) (retry_after b)],
           retryUpdate := Some (nextHandle s)\<rparr>)"
  by (simp add: postPreview_resume_def setTimeout_def Let_def resetRetry_def clearTimeout_def
        split: option.splits)

text \<open>A 429 without a body: reading \<open>retry_after\<close> throws before \<open>resetRetry\<close> and
  \<open>setTimeout\<close> are reached, and the promise is rejected with the \<open>TypeError\<close>.\<close>

lemma postPreview_resume_no_body:
  "status e = Some 429 \<Longrightarrow> body e = None \<Longrightarrow>
     postPreview_resume r (Inl e) s = (Inl TypeError, s)"
  by (simp add: postPreview_resume_def)

lemma resetRetry_tracked:
  "fst ` set (timers s) \<subseteq> set_option (retryUpdate s) \<Longrightarrow> timers (resetRetry s) = []"
  by (auto simp: resetRetry_def clearTimeout_def unschedule_def filter_empty_conv
        split: option.splits)

text \<open>As long as every pending timer is the one the slot names, a 429 leaves exactly
  the new timer pending, with the delay the body of the answer gave and the payload of
  the submit that failed, and the promise resolves.\<close>

lemma postPreview_resume_tracked:
  assumes "status e = Some 429" and "body e = Some b"
    and "fst ` set (timers s) \<subseteq> set_option (retryUpdate s)"
  shows "fst (postPreview_resume r (Inl e) s) = Inr () \<and>
         timers (snd (postPreview_resume r (Inl e) s)) =
           [(nextHandle s,
             \<lparr>delay = retry_after b, t_streamKey = r_streamKey r,
               t_imageData = r_imageData r\<rparr>)] \<and>
         retryUpdate (snd (postPreview_resume r (Inl e) s)) = Some (nextHandle s)"
  by (simp add: postPreview_resume_too_many [OF assms(1) assms(2)]
        resetRetry_tracked [OF assms(3)])

text \<open>What the timer started is the same submit: the request it issues carries the key
  and the image of the submit that failed.\<close>

lemma fire_same_payload:
  "map_of (timers s) h =
     Some \<lparr>delay = d, t_streamKey = streamKey, t_imageData = imageData\<rparr> \<Longrightarrow>
   requests (fire h s) = requests (postPreview streamKey imageData RetryCallback s) \<and>
   trace (fire h s) = trace s @ [Post streamKey imageData]"
  by (simp add: fire_def retry_callback_def postPreview_def)

text \<open>
  C1 holds in the states where the slot names the pending timer (the lemmas above) and
  fails where it does not. After \<open>retry_rejected_again\<close> timer 2 is pending and the slot
  is empty, because the callback of timer 1 cleared the slot after its own retry had
  stored handle 2 in it. The submit of a second update is then rejected with 429: the
  promise resolves and timer 3 is scheduled with the second payload, but timer 2 is not
  cancelled.
\<close>

theorem rejected_submit_keeps_untracked_timer:
  "timers (run derive me (retry_rejected_again @ [Update key frame ''B'']) init) =
     [(2, \<lparr>delay = 5, t_streamKey = key, t_imageData = ''A''\<rparr>)] \<and>
   retryUpdate (run derive me (retry_rejected_again @ [Update key frame ''B'']) init) = None \<and>
   requests (run derive me (retry_rejected_again @ [Update key frame ''B'']) init) =
     [\<lparr>r_streamKey = key, r_imageData = ''B'', r_awaiter = Detached\<rparr>] \<and>
   timers (settle 0 (Inl too_many)
            (run derive me (retry_rejected_again @ [Update key frame ''B'']) init)) =
     [(2, \<lparr>delay = 5, t_streamKey = key, t_imageData = ''A''\<rparr>),
      (3, \<lparr>delay = 5, t_streamKey = key, t_imageData = ''B''\<rparr>)] \<and>
   drop 8 (trace (settle 0 (Inl too_many)
            (run derive me (retry_rejected_again @ [Update key frame ''B'']) init))) =
     [Canvas 512 (derive 512 1080 1920), Dispatch key ''B'', Post key ''B'', SetTimeout 3 5]"
  by (simp add: run_append retry_rejected_again_state)
     (simp add: flow_defs session_defs Let_def)

subsection \<open>The number of pending retries\<close>

text \<open>Whenever the retry a timer started is answered with 429 and \<open>retry_after\<close> again,
  the new timer is pending and the slot is empty: the callback clears the slot after
  \<open>postPreview\<close> has stored the new handle in it.\<close>

lemma retry_rejected_loses_handle:
  assumes pending: "map_of (timers s) h = Some t" and st: "status e = Some 429"
    and bd: "body e = Some b"
  shows "retryUpdate (settle (length (requests s)) (Inl e) (fire h s)) = None \<and>
         nextHandle s \<in> fst ` set (timers (settle (length (requests s)) (Inl e) (fire h s)))"
proof -
  define r where
    "r = \<lparr>r_streamKey = t_streamKey t, r_imageData = t_imageData t, r_awaiter = RetryCallback\<rparr>"
  define s0 where
    "s0 = s\<lparr>timers := unschedule h (timers s),
             trace := trace s @ [Post (t_streamKey t) (t_imageData t)]\<rparr>"
  have fired: "fire h s = s0\<lparr>requests := requests s @ [r]\<rparr>"
    by (simp add: fire_pending [OF pending] r_def s0_def)
  have rest: "s0\<lparr>requests := requests s\<rparr> = s0"
    by (simp add: s0_def)
  have "settle (length (requests s)) (Inl e) (fire h s) =
          (snd (postPreview_resume r (Inl e) s0))\<lparr>retryUpdate := None\<rparr>"
    by (simp add: fired settle_def Let_def)
       (simp add: rest r_def postPreview_resume_too_many [OF st bd] retry_callback_resume_def)
  then show ?thesis
    by (simp add: postPreview_resume_too_many [OF st bd]) (simp add: s0_def)
qed

text \<open>
  C2 fails on the code. After \<open>second_update_rejected\<close> two timers are pending for the
  same stream key, and the host fires both: two retry submits are in flight. The slot
  was empty when the second 429 arrived (the callback of timer 1 had cleared it after
  its retry had scheduled timer 2), so \<open>resetRetry\<close> had nothing to cancel.
\<close>

theorem two_retries_pending:
  "map fst (timers (run derive me second_update_rejected init)) = [2, 3] \<and>
   retryUpdate (run derive me second_update_rejected init) = Some 3 \<and>
   requests (run derive me (second_update_rejected @ [Timeout 2, Timeout 3]) init) =
     [\<lparr>r_streamKey = key, r_imageData = ''A'', r_awaiter = RetryCallback\<rparr>,
      \<lparr>r_streamKey = key, r_imageData = ''B'', r_awaiter = RetryCallback\<rparr>]"
  by (simp add: second_update_rejected_def run_append retry_rejected_again_state)
     (simp add: flow_defs session_defs Let_def)

subsection \<open>The end of the session\<close>

lemma RTC_CONNECTION_VIDEO_active:
  "e_context e = ''stream'' \<Longrightarrow> e_userId e = myId \<Longrightarrow> truthy (e_streamId e) \<Longrightarrow>
     RTC_CONNECTION_VIDEO myId e s = s\<lparr>streamId := e_streamId e\<rparr>"
  by (simp add: RTC_CONNECTION_VIDEO_def)

lemma RTC_CONNECTION_VIDEO_cleared:
  "e_context e = ''stream'' \<Longrightarrow> e_userId e = myId \<Longrightarrow> \<not> truthy (e_streamId e) \<Longrightarrow>
     RTC_CONNECTION_VIDEO myId e s = resetRetry (s\<lparr>streamId := e_streamId e\<rparr>)"
  by (simp add: RTC_CONNECTION_VIDEO_def)

text \<open>The timer the slot names is cancelled by the event that clears the stream id, and
  a cancelled timer does not fire.\<close>

lemma RTC_CONNECTION_VIDEO_cancels_tracked:
  assumes "e_context e = ''stream''" and "e_userId e = myId" and "\<not> truthy (e_streamId e)"
    and "retryUpdate s = Some h"
  shows "h \<notin> fst ` set (timers (RTC_CONNECTION_VIDEO myId e s)) \<and>
         fire h (RTC_CONNECTION_VIDEO myId e s) = RTC_CONNECTION_VIDEO myId e s"
proof -
  have gone: "h \<notin> fst ` set (timers (RTC_CONNECTION_VIDEO myId e s))"
    using assms
    by (simp add: RTC_CONNECTION_VIDEO_cleared resetRetry_def clearTimeout_def unschedule_absent)
  then have "map_of (timers (RTC_CONNECTION_VIDEO myId e s)) h = None"
    by (simp add: map_of_eq_None_iff)
  with gone show ?thesis
    by (simp add: fire_def)
qed

text \<open>
  C4 fails on the code in the state \<open>retry_rejected_again\<close> ends in: timer 2 is pending
  and the slot is empty. The event that reports the stream id 0 for the user's own
  stream records the id and calls \<open>resetRetry\<close>, which finds the slot empty: timer 2
  stays in the table, and when it fires the deferred submit is issued.
\<close>

theorem session_end_keeps_untracked_timer:
  "map fst (timers (run derive me retry_rejected_again init)) = [2] \<and>
   timers (run derive me (retry_rejected_again @ [RtcConnectionVideo session_ended]) init) =
     timers (run derive me retry_rejected_again init) \<and>
   streamId (run derive me (retry_rejected_again @ [RtcConnectionVideo session_ended]) init) = Some 0 \<and>
   requests (run derive me (retry_rejected_again @ [RtcConnectionVideo session_ended, Timeout 2]) init) =
     [\<lparr>r_streamKey = key, r_imageData = ''A'', r_awaiter = RetryCallback\<rparr>]"
  by (simp add: run_append retry_rejected_again_state)
     (simp add: flow_defs session_defs session_ended_def Let_def)

end
